theory Spec2Isabelle
  imports Complex_Main
begin

section \<open>Numbers\<close>

text \<open>
  The front end is TypeScript; every quantity below has the type \<open>number\<close>, an
  IEEE 754 binary64 value.  Two readings are used.

  In the real reading a \<open>number\<close> is a mathematical real: \<open>Math.sqrt\<close> is
  \<^const>\<open>sqrt\<close>, \<open>Math.floor\<close> is \<^const>\<open>floor\<close>, and no result is rounded.  It
  states which expression and which branch the code evaluates.  It agrees with
  the code only where no division by zero and no square root of a negative
  number occurs, so the theorems about the optimisation step carry the
  hypothesis that the safety factor is positive.

  In the binary64 reading every literal and every arithmetic result is rounded
  to the nearest value with a 53-bit significand, ties to the even significand,
  as IEEE 754 prescribes for \<open>+\<close>, \<open>-\<close>, \<open>*\<close>, \<open>/\<close> and the square root.  The exponent
  range is not bounded, so overflow and subnormal numbers are not represented;
  the magnitudes below lie between \<open>2\<^sup>-\<^sup>8\<close> and \<open>2\<^sup>1\<^sup>7\<close> whenever the altitude is one
  the slider delivers.  It is used where a bound is tight enough for the rounding
  to decide it.
\<close>

definition roundHalfEven :: "real \<Rightarrow> int" where
  "roundHalfEven y =
     (let f = \<lfloor>y\<rfloor>; d = y - of_int f in
      if d < 1 / 2 then f else if 1 / 2 < d then f + 1 else if even f then f else f + 1)"

text \<open>The exponent \<open>k\<close> of the binade of \<open>x\<close>: \<open>2\<^sup>k \<le> \<bar>x\<bar> < 2\<^sup>k\<^sup>+\<^sup>1\<close>.\<close>

definition binade :: "real \<Rightarrow> int" where
  "binade x = \<lfloor>log 2 \<bar>x\<bar>\<rfloor>"

text \<open>
  The binary64 value nearest to \<open>x\<close>: the significand is \<open>x\<close> in units of
  \<open>2\<^sup>k\<^sup>-\<^sup>5\<^sup>2\<close>, rounded to an integer.
\<close>

definition binary64 :: "real \<Rightarrow> real" where
  "binary64 x =
     (if x = 0 then 0
      else of_int (roundHalfEven (x / 2 powr of_int (binade x - 52))) * 2 powr of_int (binade x - 52))"

section \<open>\<open>src/frontend/src/lib/utils/physics.ts\<close>\<close>

record Atmosphere =
  tempK :: real
  speedOfSound :: real
  zone :: string

text \<open>
  \<open>calculateAtmosphere\<close>: the temperature starts at the sea-level value and is
  overwritten by one of the two branches; the zone starts at \<open>LOW ALTITUDE\<close> and is
  overwritten by each of the three later tests that holds, in order.  The local
  \<open>pressure\<close> is assigned and never read, so it does not appear.
\<close>

definition atmosphere_tempK :: "real \<Rightarrow> real" where
  "atmosphere_tempK altitudeMeters =
     (if altitudeMeters \<le> 11000 then 288.15 - (0.0065 * altitudeMeters) else 216.65)"

definition atmosphere_zone :: "real \<Rightarrow> string" where
  "atmosphere_zone altitudeMeters =
     (let z0 = ''LOW ALTITUDE'';
          z1 = (if altitudeMeters > 5000 then ''MEDIUM ALTITUDE'' else z0);
          z2 = (if altitudeMeters > 10000 then ''HIGH ALTITUDE'' else z1);
          z3 = (if altitudeMeters > 18000 then ''STRATOSPHERE'' else z2)
      in z3)"

definition calculateAtmosphere :: "real \<Rightarrow> Atmosphere" where
  "calculateAtmosphere altitudeMeters =
     (let t = atmosphere_tempK altitudeMeters in
      \<lparr> tempK = t,
        speedOfSound = sqrt (1.4 * 287.05 * t),
        zone = atmosphere_zone altitudeMeters \<rparr>)"

definition mpsToKmph :: "real \<Rightarrow> real" where
  "mpsToKmph mps = mps * 3.6"

text \<open>
  \<open>calculateAtmosphere\<close> in the binary64 reading: the same branches, with the three
  temperature literals, the two literals of the speed of sound, each product, the
  difference and the square root rounded.  \<open>1.4 * 287.05 * tempK\<close> associates to
  the left.  The comparisons are exact and the zone is the same.
\<close>

definition atmosphere_tempK64 :: "real \<Rightarrow> real" where
  "atmosphere_tempK64 altitudeMeters =
     (if altitudeMeters \<le> 11000
      then binary64 (binary64 288.15 - binary64 (binary64 0.0065 * altitudeMeters))
      else binary64 216.65)"

definition calculateAtmosphere64 :: "real \<Rightarrow> Atmosphere" where
  "calculateAtmosphere64 altitudeMeters =
     (let t = atmosphere_tempK64 altitudeMeters in
      \<lparr> tempK = t,
        speedOfSound = binary64 (sqrt (binary64 (binary64 (binary64 1.4 * binary64 287.05) * t))),
        zone = atmosphere_zone altitudeMeters \<rparr>)"

section \<open>\<open>src/frontend/src/routes/+page.svelte\<close>: mission profile\<close>

record MissionProfile =
  altitude :: real
  speed :: real
  isContextApplied :: bool

text \<open>
  The reactive declarations \<open>$: atmosphere = calculateAtmosphere($missionProfile.altitude)\<close>
  and \<open>$: machNumber = $missionProfile.speed / atmosphere.speedOfSound\<close>.
\<close>

definition machNumber :: "MissionProfile \<Rightarrow> real" where
  "machNumber mp = speed mp / speedOfSound (calculateAtmosphere (altitude mp))"

definition machNumber64 :: "MissionProfile \<Rightarrow> real" where
  "machNumber64 mp = binary64 (speed mp / speedOfSound (calculateAtmosphere64 (altitude mp)))"

section \<open>\<open>src/frontend/src/routes/+page.svelte\<close>: the optimisation step\<close>

record WingParameters =
  span :: real
  rootChord :: real
  thickness :: real

record ComponentModel =
  parameters :: WingParameters

text \<open>
  \<open>simResult\<close> is typed \<open>any\<close>; the fields the page reads are kept.  The status is the
  string the page compares with \<open>'PASS'\<close> and \<open>'FAIL'\<close>.
\<close>

record SimulationResult =
  status :: string
  safety_factor :: real
  max_stress :: real
  lift_force_kn :: real

text \<open>
  Lines 148 to 170 of \<open>optimizeDesign\<close>, one definition for each assignment to
  \<open>newThickness\<close>: the scaled value (line 163), the cap at 25 (line 166), the minimum
  bump (line 167) and the rounding with \<open>Math.floor\<close> (line 170).
\<close>

definition targetSF :: real where
  "targetSF = 1.55"

definition sfRatio :: "real \<Rightarrow> real" where
  "sfRatio currentSF = targetSF / currentSF"

definition scaledThickness :: "real \<Rightarrow> real \<Rightarrow> real" where
  "scaledThickness currentThickness currentSF = currentThickness * sqrt (sfRatio currentSF)"

definition cappedThickness :: "real \<Rightarrow> real \<Rightarrow> real" where
  "cappedThickness currentThickness currentSF =
     (let newThickness = scaledThickness currentThickness currentSF in
      if newThickness > 25 then 25 else newThickness)"

definition bumpedThickness :: "real \<Rightarrow> real \<Rightarrow> real" where
  "bumpedThickness currentThickness currentSF =
     (let newThickness = cappedThickness currentThickness currentSF in
      if newThickness < currentThickness then currentThickness + 2 else newThickness)"

definition newThickness :: "real \<Rightarrow> real \<Rightarrow> int" where
  "newThickness currentThickness currentSF = \<lfloor>bumpedThickness currentThickness currentSF\<rfloor>"

text \<open>
  The object built on line 174: the current parameters with the new thickness.
\<close>

definition optimizedParams :: "WingParameters \<Rightarrow> SimulationResult \<Rightarrow> WingParameters" where
  "optimizedParams currentParams r =
     currentParams \<lparr> thickness :=
       real_of_int (newThickness (thickness currentParams) (safety_factor r)) \<rparr>"

text \<open>
  The rest of \<open>optimizeDesign\<close>, lines 176 to 217, with every exception a value.

  \<open>isCompiling\<close> is a binding the page imports from the store module (line 14; the
  page elsewhere calls \<open>isCompiling.set\<close> and reads \<open>$isCompiling\<close>).  An import
  binding is read-only: the assignments \<open>isCompiling = true\<close> of line 182, before
  the \<open>try\<close>, and \<open>isCompiling = false\<close> of line 216, in \<open>finally\<close>, throw a
  \<open>TypeError\<close>.

  \<open>setComponentModel\<close> (line 203) is neither imported nor declared by the page
  (the comment above the call asks for the import to be added); evaluating the
  name throws a \<open>ReferenceError\<close>, inside the \<open>try\<close>.

  \<open>apiService.updateParameters\<close> belongs to the module \<open>$lib/services/apiService\<close>
  and is a parameter: the awaited call either throws or resolves to a response.  The \<open>alert\<close> of line 177 and the timer that hides the toast are
  not represented.
\<close>

datatype error = TypeError string | ReferenceError string | Rejected

definition assignToImport :: "string \<Rightarrow> error + unit" where
  "assignToImport name = Inl (TypeError name)"

definition callUndeclared :: "string \<Rightarrow> error + unit" where
  "callUndeclared name = Inl (ReferenceError name)"

record ApiResponse =
  success :: bool
  model :: "ComponentModel option"

record PageState =
  simResult :: "SimulationResult option"
  wingsModel :: "ComponentModel option"
  contextToastText :: string
  showContextToast :: bool

text \<open>
  The body of the \<open>try\<close>, lines 185 to 212.  What \<open>setComponentModel\<close> would do to
  the store has no place here, since the call does not return.
\<close>

definition tryBlock ::
  "(WingParameters \<Rightarrow> error + ApiResponse) \<Rightarrow> WingParameters \<Rightarrow> PageState \<Rightarrow> error + PageState" where
  "tryBlock updateParameters newParams st =
     (case updateParameters newParams of
        Inl e \<Rightarrow> Inl e
      | Inr response \<Rightarrow>
          (if success response then
             (case model response of
                None \<Rightarrow> Inr st
              | Some m \<Rightarrow>
                  (case callUndeclared ''setComponentModel'' of
                     Inl e \<Rightarrow> Inl e
                   | Inr u \<Rightarrow>
                       Inr (st \<lparr> simResult := None,
                                 contextToastText := ''Optimization Applied. Re-run simulation.'',
                                 showContextToast := True \<rparr>)))
           else Inr st))"

text \<open>
  The \<open>try\<close> statement: \<open>catch\<close> logs the error and goes on with the state as it
  was when the error was thrown (the body changes nothing before it can throw);
  \<open>finally\<close> then makes its assignment.  The result is the page state and the
  error the step ends with, if any.
\<close>

definition tryCatchFinally ::
  "(WingParameters \<Rightarrow> error + ApiResponse) \<Rightarrow> WingParameters \<Rightarrow> PageState
     \<Rightarrow> PageState \<times> error option" where
  "tryCatchFinally updateParameters newParams st =
     (let caught = (case tryBlock updateParameters newParams st of
                      Inl e \<Rightarrow> st
                    | Inr st' \<Rightarrow> st')
      in case assignToImport ''isCompiling'' of
           Inl e \<Rightarrow> (caught, Some e)
         | Inr u \<Rightarrow> (caught, None))"

definition optimizeDesign ::
  "(WingParameters \<Rightarrow> error + ApiResponse) \<Rightarrow> PageState \<Rightarrow> PageState \<times> error option" where
  "optimizeDesign updateParameters st =
     (case simResult st of
        None \<Rightarrow> (st, None)
      | Some r \<Rightarrow>
          (case wingsModel st of
             None \<Rightarrow> (st, None)
           | Some m \<Rightarrow>
               if status r = ''PASS'' then (st, None)
               else
                 let newParams = optimizedParams (parameters m) r in
                 (case assignToImport ''isCompiling'' of
                    Inl e \<Rightarrow> (st, Some e)
                  | Inr u \<Rightarrow> tryCatchFinally updateParameters newParams st)))"

section \<open>\<open>src/frontend/src/routes/+page.svelte\<close>: mission controls and the simulation request\<close>

text \<open>
  The two \<open>input type="range"\<close> elements bound to \<open>$missionProfile.altitude\<close> and
  \<open>$missionProfile.speed\<close>, by their \<open>min\<close>, \<open>max\<close> and \<open>step\<close> attributes.  A range
  input delivers the values \<open>min + k * step\<close> that do not exceed \<open>max\<close>; position
  \<open>k\<close> past the last one is the last one.
\<close>

record RangeInput =
  minAttr :: int
  maxAttr :: int
  stepAttr :: int

definition altitudeSlider :: RangeInput where
  "altitudeSlider = \<lparr> minAttr = 500, maxAttr = 25000, stepAttr = 500 \<rparr>"

definition speedSlider :: RangeInput where
  "speedSlider = \<lparr> minAttr = 50, maxAttr = 1000, stepAttr = 10 \<rparr>"

definition sliderValue :: "RangeInput \<Rightarrow> nat \<Rightarrow> int" where
  "sliderValue inp k =
     minAttr inp + int (min k (nat ((maxAttr inp - minAttr inp) div stepAttr inp))) * stepAttr inp"

text \<open>
  What the mission-control panel can do to the profile: move either slider, or
  press the context button (\<open>applyContext\<close>).  The profile's first value is set in
  the store module and is a parameter of \<open>missionRun\<close>.
\<close>

datatype MissionEvent = AltitudeInput nat | SpeedInput nat | ApplyContext

fun missionStep :: "MissionProfile \<Rightarrow> MissionEvent \<Rightarrow> MissionProfile" where
  "missionStep mp (AltitudeInput k) = mp \<lparr> altitude := real_of_int (sliderValue altitudeSlider k) \<rparr>"
| "missionStep mp (SpeedInput k) = mp \<lparr> speed := real_of_int (sliderValue speedSlider k) \<rparr>"
| "missionStep mp ApplyContext = mp \<lparr> isContextApplied := True \<rparr>"

definition missionRun :: "MissionProfile \<Rightarrow> MissionEvent list \<Rightarrow> MissionProfile" where
  "missionRun init evs = foldl missionStep init evs"

text \<open>The material table of \<open>$lib/data/materials\<close>.\<close>

record AerospaceMaterial =
  materialId :: string
  materialName :: string
  density :: real
  yieldStrength :: real
  cost :: string
  description :: string

definition MATERIALS :: "AerospaceMaterial list" where
  "MATERIALS =
    [\<lparr> materialId = ''al7075'', materialName = ''ALUMINUM 7075-T6'', density = 2810,
       yieldStrength = 503, cost = ''$$'',
       description = ''High static strength, standard for airframes.'' \<rparr>,
     \<lparr> materialId = ''ti6al4v'', materialName = ''TITANIUM Ti-6Al-4V'', density = 4430,
       yieldStrength = 880, cost = ''$$$$'',
       description = ''Excellent strength-to-weight, high heat resistance.'' \<rparr>,
     \<lparr> materialId = ''cf_epoxy'', materialName = ''CARBON FIBER (Epoxy)'', density = 1600,
       yieldStrength = 600, cost = ''$$$'',
       description = ''Extremely lightweight, high stiffness.'' \<rparr>,
     \<lparr> materialId = ''steel4340'', materialName = ''STEEL 4340'', density = 7850,
       yieldStrength = 1620, cost = ''$'',
       description = ''Very high strength, heavy. Used for landing gear.'' \<rparr>,
     \<lparr> materialId = ''al2024'', materialName = ''ALUMINUM 2024-T3'', density = 2780,
       yieldStrength = 345, cost = ''$$'',
       description = ''High fatigue resistance, used for wings/fuselage.'' \<rparr>]"

text \<open>
  The argument \<open>handleSimulation\<close> passes to \<open>apiService.runSimulation\<close>: the material
  found by its id, or the first of the table, the two mission values and three of
  the wing's parameters.
\<close>

record SimulationRequest =
  materialYield :: real
  materialDensity :: real
  req_altitude :: real
  req_speed :: real
  req_span :: real
  req_rootChord :: real
  req_thickness :: real

definition simulationRequest :: "string \<Rightarrow> WingParameters \<Rightarrow> MissionProfile \<Rightarrow> SimulationRequest" where
  "simulationRequest matId wingParams mp =
     (let material = (case find (\<lambda>m. materialId m = matId) MATERIALS of
                        Some m \<Rightarrow> m
                      | None \<Rightarrow> hd MATERIALS)
      in \<lparr> materialYield = yieldStrength material,
           materialDensity = density material,
           req_altitude = altitude mp,
           req_speed = speed mp,
           req_span = span wingParams,
           req_rootChord = rootChord wingParams,
           req_thickness = thickness wingParams \<rparr>)"

section \<open>Example page states\<close>

text \<open>
  A page holding a failed analysis of a 12 percent wing; a server that answers
  every update with success and a model of the parameters it was sent; and a
  mission profile to start from.
\<close>

definition failedWingPage :: PageState where
  "failedWingPage =
     \<lparr> simResult = Some \<lparr> status = ''FAIL'', safety_factor = 1.4, max_stress = 359.3,
                          lift_force_kn = 100 \<rparr>,
       wingsModel = Some \<lparr> parameters = \<lparr> span = 2, rootChord = 0.5, thickness = 12 \<rparr> \<rparr>,
       contextToastText = [],
       showContextToast = False \<rparr>"

definition echoResponse :: "WingParameters \<Rightarrow> error + ApiResponse" where
  "echoResponse p = Inr \<lparr> success = True, model = Some \<lparr> parameters = p \<rparr> \<rparr>"

definition startProfile :: MissionProfile where
  "startProfile = \<lparr> altitude = 10000, speed = 250, isContextApplied = False \<rparr>"

section \<open>Rounding to binary64\<close>

lemma roundHalfEven_ge: "of_int n \<le> y \<Longrightarrow> n \<le> roundHalfEven y"
proof -
  assume "of_int n \<le> y"
  then have "n \<le> \<lfloor>y\<rfloor>" by (simp add: le_floor_iff)
  then show ?thesis by (simp add: roundHalfEven_def Let_def)
qed

lemma roundHalfEven_le: "y \<le> of_int n \<Longrightarrow> roundHalfEven y \<le> n"
proof -
  assume a: "y \<le> of_int n"
  then have f: "\<lfloor>y\<rfloor> \<le> n" by (simp add: floor_le_iff)
  show ?thesis
  proof (cases "\<lfloor>y\<rfloor> = n")
    case True
    then have "y - of_int \<lfloor>y\<rfloor> \<le> 0" using a by simp
    then show ?thesis using True by (simp add: roundHalfEven_def Let_def)
  next
    case False
    then have "\<lfloor>y\<rfloor> + 1 \<le> n" using f by simp
    then show ?thesis by (simp add: roundHalfEven_def Let_def)
  qed
qed

lemma roundHalfEven_near:
  assumes "of_int n - 1 / 2 < y" "y < of_int n + 1 / 2"
  shows "roundHalfEven y = n"
proof (cases "of_int n \<le> y")
  case True
  then have "\<lfloor>y\<rfloor> = n" using assms(2) by (simp add: floor_eq_iff)
  then show ?thesis using assms(2) by (simp add: roundHalfEven_def Let_def)
next
  case False
  then have "\<lfloor>y\<rfloor> = n - 1" using assms(1) by (simp add: floor_eq_iff)
  then show ?thesis using assms(1) by (simp add: roundHalfEven_def Let_def)
qed

lemma roundHalfEven_of_int: "roundHalfEven (of_int n) = n"
  by (rule roundHalfEven_near) simp_all

lemma binade_bounds:
  assumes "0 < x"
  shows "2 powr of_int (binade x) \<le> x \<and> x < 2 powr (of_int (binade x) + 1)"
  using floor_log_eq_powr_iff [of x 2 "binade x"] assms by (simp add: binade_def)

lemma binade_eq:
  assumes "0 < x" "2 powr of_int k \<le> x" "x < 2 powr (of_int k + 1)"
  shows "binade x = k"
  using floor_log_eq_powr_iff [of x 2 k] assms by (simp add: binade_def)

lemma binary64_in_binade:
  assumes "0 < x" "2 powr of_int k \<le> x" "x < 2 powr (of_int k + 1)"
  shows "binary64 x = of_int (roundHalfEven (x / 2 powr of_int (k - 52))) * 2 powr of_int (k - 52)"
  using assms binade_eq [OF assms] by (simp add: binary64_def)

lemma binary64_nonpos:
  assumes "x \<le> 0"
  shows "binary64 x \<le> 0"
proof -
  define s :: real where "s = 2 powr of_int (binade x - 52)"
  have s: "0 < s" by (simp add: s_def)
  have "x / s \<le> of_int 0"
    using assms s by (simp add: divide_nonpos_nonneg)
  then have "roundHalfEven (x / s) \<le> 0"
    by (rule roundHalfEven_le)
  then have "real_of_int (roundHalfEven (x / s)) \<le> 0" by simp
  then have "real_of_int (roundHalfEven (x / s)) * s \<le> 0"
    using s by (simp add: mult_nonpos_nonneg)
  then show ?thesis by (simp add: binary64_def s_def)
qed

lemma scale_integral:
  assumes "e \<le> 0"
  shows "real_of_int (n * 2 ^ nat (- e)) * 2 powr of_int e = of_int n"
    and "of_int n / 2 powr of_int e = real_of_int (n * 2 ^ nat (- e))"
  using assms by (simp_all add: powr_real_of_int field_simps)

lemma binary64_ge_int:
  assumes "0 < n" "n \<le> 2 ^ 53" "of_int n \<le> x"
  shows "of_int n \<le> binary64 x"
proof -
  have "0 < real_of_int n" using assms(1) by simp
  then have x: "0 < x" using assms(3) by linarith
  define e where "e = binade x - 52"
  define s :: real where "s = 2 powr of_int e"
  have s: "0 < s" by (simp add: s_def)
  have b: "binary64 x = of_int (roundHalfEven (x / s)) * s"
    using x by (simp add: binary64_def s_def e_def)
  show ?thesis
  proof (cases "e \<le> 0")
    case True
    define N where "N = n * 2 ^ nat (- e)"
    have Ns: "real_of_int N * s = of_int n" and nN: "of_int n / s = real_of_int N"
      unfolding N_def s_def using True by (rule scale_integral)+
    have "of_int n / s \<le> x / s" using assms(3) s by (simp add: divide_right_mono)
    then have "real_of_int N \<le> x / s" unfolding nN .
    then have "N \<le> roundHalfEven (x / s)" by (rule roundHalfEven_ge)
    then have "real_of_int N \<le> of_int (roundHalfEven (x / s))" by simp
    then have "real_of_int N * s \<le> of_int (roundHalfEven (x / s)) * s"
      using s by (simp only: mult_le_cancel_right_pos)
    then show ?thesis unfolding Ns b .
  next
    case False
    then have e1: "1 \<le> e" by simp
    have "2 powr of_int (binade x) \<le> x" using binade_bounds [OF x] by simp
    then have "2 powr of_int (binade x) / s \<le> x / s" using s by (simp add: divide_right_mono)
    moreover have "2 powr of_int (binade x) / s = 2 powr of_int 52"
      by (simp add: s_def e_def powr_diff [symmetric])
    moreover have "(2::real) powr of_int 52 = of_int (2 ^ 52)"
      by (simp add: powr_real_of_int)
    ultimately have "real_of_int (2 ^ 52) \<le> x / s" by (simp only:)
    then have "2 ^ 52 \<le> roundHalfEven (x / s)" by (rule roundHalfEven_ge)
    then have "real_of_int (2 ^ 52) \<le> of_int (roundHalfEven (x / s))"
      by (simp only: of_int_le_iff)
    then have r: "(2::real) ^ 52 \<le> of_int (roundHalfEven (x / s))" by simp
    have "(2::real) powr of_int 1 \<le> 2 powr of_int e"
      using e1 by (simp only: powr_le_cancel_iff of_int_le_iff)
    then have s2: "2 \<le> s" by (simp add: s_def)
    have "(0::real) \<le> 2 ^ 52" by simp
    then have r0: "0 \<le> real_of_int (roundHalfEven (x / s))" using r by (rule order_trans)
    have "(2::real) ^ 52 * 2 \<le> of_int (roundHalfEven (x / s)) * s"
      using r s2 r0 by (rule mult_mono) simp
    then have "(2::real) ^ 53 \<le> binary64 x" unfolding b by simp
    moreover have "real_of_int n \<le> real_of_int (2 ^ 53)"
      using assms(2) by (simp only: of_int_le_iff)
    ultimately show ?thesis by simp
  qed
qed

lemma binary64_le_int:
  assumes "0 < n" "n < 2 ^ 53" "x \<le> of_int n"
  shows "binary64 x \<le> of_int n"
proof (cases "0 < x")
  case False
  then have "binary64 x \<le> 0" by (simp add: binary64_nonpos)
  moreover have "0 < real_of_int n" using assms(1) by simp
  ultimately show ?thesis by linarith
next
  case x: True
  define e where "e = binade x - 52"
  define s :: real where "s = 2 powr of_int e"
  have s: "0 < s" by (simp add: s_def)
  have b: "binary64 x = of_int (roundHalfEven (x / s)) * s"
    using x by (simp add: binary64_def s_def e_def)
  have "real_of_int n < real_of_int (2 ^ 53)"
    using assms(2) by (simp only: of_int_less_iff)
  moreover have "(2::real) powr of_int 53 = of_int (2 ^ 53)"
    by (simp add: powr_real_of_int)
  ultimately have "x < 2 powr of_int 53" using assms(3) by linarith
  moreover have "2 powr of_int (binade x) \<le> x" using binade_bounds [OF x] by simp
  ultimately have "(2::real) powr of_int (binade x) < 2 powr of_int 53" by linarith
  then have "real_of_int (binade x) < of_int 53"
    using powr_less_cancel_iff [of 2 "of_int (binade x)" "of_int 53"] by (simp del: powr_numeral)
  then have "binade x < 53" by simp
  then have e0: "e \<le> 0" by (simp add: e_def)
  define N where "N = n * 2 ^ nat (- e)"
  have Ns: "real_of_int N * s = of_int n" and nN: "of_int n / s = real_of_int N"
    unfolding N_def s_def using e0 by (rule scale_integral)+
  have "x / s \<le> of_int n / s" using assms(3) s by (simp add: divide_right_mono)
  then have "x / s \<le> real_of_int N" unfolding nN .
  then have "roundHalfEven (x / s) \<le> N" by (rule roundHalfEven_le)
  then have "real_of_int (roundHalfEven (x / s)) \<le> of_int N" by simp
  then have "of_int (roundHalfEven (x / s)) * s \<le> real_of_int N * s"
    using s by (simp only: mult_le_cancel_right_pos)
  then show ?thesis unfolding Ns b .
qed


lemma binary64_value:
  assumes "0 < x" "2 powr of_int k \<le> x" "x < 2 powr (of_int k + 1)"
    and "of_int m - 1 / 2 < x / 2 powr of_int (k - 52)"
    and "x / 2 powr of_int (k - 52) < of_int m + 1 / 2"
  shows "binary64 x = of_int m * 2 powr of_int (k - 52)"
  using binary64_in_binade [OF assms(1,2,3)] roundHalfEven_near [OF assms(4,5)] by simp

text \<open>The three roundings and the exact difference that make up the temperature at 11000 m.\<close>

lemma binary64_0065: "binary64 0.0065 = 7493989779944505 / 2 ^ 60"
  using binary64_value [of "0.0065" "- 8" 7493989779944505]
  by (simp add: powr_neg_numeral)

lemma binary64_28815: "binary64 288.15 = 5069188408698470 / 2 ^ 44"
  using binary64_value [of "288.15" 8 5069188408698470]
  by (simp add: powr_neg_numeral)

lemma binary64_product_11000: "binary64 (7493989779944505 / 2 ^ 60 * 11000) = 71.5"
  using binary64_value [of "7493989779944505 / 2 ^ 60 * 11000" 6 5031365208702976]
  by (simp add: powr_neg_numeral)

lemma binary64_difference_11000:
  "binary64 (5069188408698470 / 2 ^ 44 - 71.5) = 7622694213045452 / 2 ^ 45"
  using binary64_value [of "5069188408698470 / 2 ^ 44 - 71.5" 7 7622694213045452]
  by (simp add: powr_neg_numeral)

lemma atmosphere_tempK64_11000: "atmosphere_tempK64 11000 = 7622694213045452 / 2 ^ 45"
  by (simp only: atmosphere_tempK64_def binary64_0065 binary64_28815
      binary64_product_11000 binary64_difference_11000) simp

text \<open>Bounds that hold at every altitude.\<close>

lemma atmosphere_tempK64_ge_216: "216 \<le> atmosphere_tempK64 a"
proof (cases "a \<le> 11000")
  case True
  have "(7493989779944505 / 2 ^ 60) * a \<le> (7493989779944505 / 2 ^ 60) * 11000"
    using True by simp
  also have "\<dots> \<le> real_of_int 72" by simp
  finally have "binary64 0.0065 * a \<le> real_of_int 72"
    unfolding binary64_0065 .
  then have "binary64 (binary64 0.0065 * a) \<le> real_of_int 72"
    by (rule binary64_le_int [rotated 2]) simp_all
  moreover have "real_of_int 216 + real_of_int 72 \<le> 5069188408698470 / 2 ^ 44"
    by simp
  ultimately have "real_of_int 216 \<le> binary64 288.15 - binary64 (binary64 0.0065 * a)"
    unfolding binary64_28815 by linarith
  then have "real_of_int 216 \<le> binary64 (binary64 288.15 - binary64 (binary64 0.0065 * a))"
    by (rule binary64_ge_int [rotated 2]) simp_all
  then show ?thesis using True by (simp only: atmosphere_tempK64_def if_True of_int_numeral)
next
  case False
  have "real_of_int 216 \<le> 216.65" by simp
  then have "real_of_int 216 \<le> binary64 216.65"
    by (rule binary64_ge_int [rotated 2]) simp_all
  then show ?thesis using False by (simp only: atmosphere_tempK64_def if_False of_int_numeral)
qed

lemma speedOfSound64_ge_248: "248 \<le> speedOfSound (calculateAtmosphere64 a)"
proof -
  define g where "g = binary64 (binary64 1.4 * binary64 287.05)"
  define q where "q = binary64 (g * atmosphere_tempK64 a)"
  have "real_of_int 1 \<le> 1.4" by simp
  then have g1: "real_of_int 1 \<le> binary64 1.4"
    by (rule binary64_ge_int [rotated 2]) simp_all
  have "real_of_int 287 \<le> 287.05" by simp
  then have g2: "real_of_int 287 \<le> binary64 287.05"
    by (rule binary64_ge_int [rotated 2]) simp_all
  have "0 \<le> binary64 1.4" using g1 by simp
  with g1 g2 have "real_of_int 1 * real_of_int 287 \<le> binary64 1.4 * binary64 287.05"
    by (rule mult_mono) simp
  then have "real_of_int 287 \<le> binary64 1.4 * binary64 287.05"
    by (simp only: of_int_1 mult_1)
  then have g: "real_of_int 287 \<le> g"
    unfolding g_def by (rule binary64_ge_int [rotated 2]) simp_all
  have t: "real_of_int 216 \<le> atmosphere_tempK64 a"
    using atmosphere_tempK64_ge_216 [of a] by simp
  have "0 \<le> g" using g by simp
  with g t have "real_of_int 287 * real_of_int 216 \<le> g * atmosphere_tempK64 a"
    by (rule mult_mono) simp
  moreover have "real_of_int 61504 \<le> real_of_int 287 * real_of_int 216" by simp
  ultimately have "real_of_int 61504 \<le> g * atmosphere_tempK64 a" by (rule order_trans [rotated])
  then have "real_of_int 61504 \<le> q"
    unfolding q_def by (rule binary64_ge_int [rotated 2]) simp_all
  then have "(248::real)\<^sup>2 \<le> q" by simp
  then have "248 \<le> sqrt q" by (rule real_le_rsqrt)
  then have "real_of_int 248 \<le> sqrt q" by simp
  then have "real_of_int 248 \<le> binary64 (sqrt q)"
    by (rule binary64_ge_int [rotated 2]) simp_all
  then show ?thesis
    by (simp only: calculateAtmosphere64_def Let_def q_def g_def Atmosphere.simps of_int_numeral)
qed

section \<open>Atmosphere: temperature, speed of sound, zone\<close>

text \<open>
  Claim C6.  For every altitude the atmosphere function returns the temperature
  \<open>288.15 - 0.0065 * altitude\<close> when the altitude is at most 11000 m, the
  temperature \<open>216.65\<close> when it is above 11000 m, and the speed of sound
  \<open>sqrt (1.4 * 287.05 * T)\<close> for that temperature \<open>T\<close>.
\<close>

theorem calculateAtmosphere_temperature_and_sound:
  "(a \<le> 11000 \<longrightarrow> tempK (calculateAtmosphere a) = 288.15 - 0.0065 * a) \<and>
   (a > 11000 \<longrightarrow> tempK (calculateAtmosphere a) = 216.65) \<and>
   speedOfSound (calculateAtmosphere a) = sqrt (1.4 * 287.05 * tempK (calculateAtmosphere a))"
  by (simp add: calculateAtmosphere_def atmosphere_tempK_def Let_def)

theorem calculateAtmosphere_temperature_and_sound_witness:
  "(10000::real) \<le> 11000 \<and> tempK (calculateAtmosphere 10000) = 223.15 \<and>
   (12000::real) > 11000 \<and> tempK (calculateAtmosphere 12000) = 216.65 \<and>
   speedOfSound (calculateAtmosphere 12000) = sqrt (1.4 * 287.05 * 216.65)"
  using calculateAtmosphere_temperature_and_sound [of 10000]
        calculateAtmosphere_temperature_and_sound [of 12000]
  by simp

text \<open>
  Claim C7, as amended.  The zone is \<open>LOW ALTITUDE\<close> up to and including 5000 m,
  \<open>MEDIUM ALTITUDE\<close> above 5000 m up to and including 10000 m, \<open>HIGH ALTITUDE\<close>
  above 10000 m up to and including 18000 m, and \<open>STRATOSPHERE\<close> above 18000 m: at
  each threshold the zone is the lower classification.
\<close>

theorem calculateAtmosphere_zone_ladder:
  "(a \<le> 5000 \<longrightarrow> zone (calculateAtmosphere a) = ''LOW ALTITUDE'') \<and>
   (5000 < a \<and> a \<le> 10000 \<longrightarrow> zone (calculateAtmosphere a) = ''MEDIUM ALTITUDE'') \<and>
   (10000 < a \<and> a \<le> 18000 \<longrightarrow> zone (calculateAtmosphere a) = ''HIGH ALTITUDE'') \<and>
   (18000 < a \<longrightarrow> zone (calculateAtmosphere a) = ''STRATOSPHERE'')"
  by (simp add: calculateAtmosphere_def atmosphere_zone_def Let_def)

theorem calculateAtmosphere_zone_ladder_witness:
  "zone (calculateAtmosphere 10000) = ''MEDIUM ALTITUDE'' \<and>
   zone (calculateAtmosphere 18000) = ''HIGH ALTITUDE'' \<and>
   zone (calculateAtmosphere 18500) = ''STRATOSPHERE'' \<and>
   zone (calculateAtmosphere 500) = ''LOW ALTITUDE''"
  using calculateAtmosphere_zone_ladder [of 10000]
        calculateAtmosphere_zone_ladder [of 18000]
        calculateAtmosphere_zone_ladder [of 18500]
        calculateAtmosphere_zone_ladder [of 500]
  by simp

text \<open>
  Claim C7 as stated fails at the threshold itself: at exactly 5000 m the code
  answers \<open>LOW ALTITUDE\<close>, not \<open>MEDIUM ALTITUDE\<close>.
\<close>

theorem calculateAtmosphere_zone_at_5000:
  "zone (calculateAtmosphere 5000) = ''LOW ALTITUDE'' \<and>
   zone (calculateAtmosphere 5000) \<noteq> ''MEDIUM ALTITUDE''"
  by (simp add: calculateAtmosphere_def atmosphere_zone_def Let_def)

text \<open>
  Claim C9, as amended.  At every altitude (so at every altitude the slider
  delivers and at every altitude below 44330 m) the temperature the atmosphere
  function returns is strictly positive, at least 216 K, so the speed of sound is
  a well-defined positive number, at least 248 m/s, and the Mach-number
  computation never divides by zero.  This holds in the binary64 reading and in
  the real reading.
\<close>

theorem calculateAtmosphere_positive:
  "216 \<le> tempK (calculateAtmosphere64 a) \<and>
   0 < tempK (calculateAtmosphere64 a) \<and>
   0 < speedOfSound (calculateAtmosphere64 a) \<and>
   speedOfSound (calculateAtmosphere64 (altitude mp)) \<noteq> 0 \<and>
   0 < tempK (calculateAtmosphere a) \<and>
   0 < speedOfSound (calculateAtmosphere a) \<and>
   speedOfSound (calculateAtmosphere (altitude mp)) \<noteq> 0"
proof -
  have t64: "216 \<le> tempK (calculateAtmosphere64 x)" for x
    using atmosphere_tempK64_ge_216 [of x] by (simp add: calculateAtmosphere64_def Let_def)
  have s64: "0 < speedOfSound (calculateAtmosphere64 x)" for x
    using speedOfSound64_ge_248 [of x] by simp
  have t: "0 < tempK (calculateAtmosphere x)" for x
    by (simp add: calculateAtmosphere_def atmosphere_tempK_def Let_def)
  have "0 < atmosphere_tempK x" for x
    by (simp add: atmosphere_tempK_def)
  then have sn: "0 < speedOfSound (calculateAtmosphere x)" for x
    by (simp add: calculateAtmosphere_def Let_def)
  show ?thesis
    using t64 [of a] s64 [of a] s64 [of "altitude mp"] t [of a] sn [of a] sn [of "altitude mp"]
    by simp
qed

text \<open>
  Claim C9 as stated, with the bound 216.65 K, fails at 11000 m, a stop of the
  altitude slider.  There \<open>0.0065 * 11000\<close> rounds to 71.5 and the literal
  \<open>288.15\<close> is the binary64 value just below 288.15, so the difference is
  \<open>7622694213045452 / 2\<^sup>4\<^sup>5\<close>, printed \<open>216.64999999999998\<close>, which is below 216.65.
\<close>

theorem calculateAtmosphere_below_bound_at_11000:
  "tempK (calculateAtmosphere64 11000) = 7622694213045452 / 2 ^ 45 \<and>
   tempK (calculateAtmosphere64 11000) < 216.65"
  by (simp add: calculateAtmosphere64_def Let_def atmosphere_tempK64_11000)

section \<open>The optimisation step: the new thickness\<close>

text \<open>
  A failed analysis has a safety factor below 1.5, so the ratio to the target 1.55
  and its square root exceed 1.
\<close>

lemma sqrt_sfRatio_gt_1:
  assumes "0 < s" "s < 1.5"
  shows "1 < sqrt (sfRatio s)"
proof -
  have "s < 1.55" using assms by simp
  then have "1 < 1.55 / s" using assms(1) by (simp add: field_simps)
  then show ?thesis by (simp add: sfRatio_def targetSF_def)
qed

lemma scaledThickness_ge:
  assumes "0 < s" "s < 1.5" "0 \<le> t"
  shows "t \<le> scaledThickness t s"
proof -
  have "1 \<le> sqrt (sfRatio s)" using sqrt_sfRatio_gt_1 [OF assms(1,2)] by simp
  then have "t * 1 \<le> t * sqrt (sfRatio s)" using assms(3) by (rule mult_left_mono)
  then show ?thesis by (simp add: scaledThickness_def)
qed

lemma scaledThickness_gt:
  assumes "0 < s" "s < 1.5" "0 < t"
  shows "t < scaledThickness t s"
proof -
  have "t * 1 < t * sqrt (sfRatio s)"
    using sqrt_sfRatio_gt_1 [OF assms(1,2)] assms(3) by (rule mult_strict_left_mono)
  then show ?thesis by (simp add: scaledThickness_def)
qed

lemma scaledThickness_neg:
  assumes "0 < s" "s < 1.5" "t < 0"
  shows "scaledThickness t s < t"
proof -
  have "t * sqrt (sfRatio s) < t * 1"
    using sqrt_sfRatio_gt_1 [OF assms(1,2)] assms(3) by (rule mult_strict_left_mono_neg)
  then show ?thesis by (simp add: scaledThickness_def)
qed

text \<open>The value before rounding, by the position of the current thickness.\<close>

lemma bumpedThickness_cases:
  assumes "0 < s" "s < 1.5"
  shows "bumpedThickness t s =
     (if t < 0 \<or> 25 < t then t + 2
      else if 25 < scaledThickness t s then 25 else scaledThickness t s)"
proof (cases "t < 0")
  case True
  then show ?thesis
    using scaledThickness_neg [OF assms True]
    by (simp add: bumpedThickness_def cappedThickness_def Let_def)
next
  case False
  then have "t \<le> scaledThickness t s" using scaledThickness_ge [OF assms] by simp
  with False show ?thesis
    by (simp add: bumpedThickness_def cappedThickness_def Let_def)
qed

lemma bumpedThickness_ge: "t \<le> bumpedThickness t s"
  by (simp add: bumpedThickness_def Let_def)

text \<open>
  Rounding a scaled thickness at a concrete input: bound the square root from
  above by a rational \<open>b\<close> and from below by 1.
\<close>

lemma floor_scaled_between:
  assumes "0 < t" "real_of_int k \<le> t" "0 \<le> b" "x < b\<^sup>2" "1 \<le> x" "t * b \<le> real_of_int k + 1"
  shows "\<lfloor>t * sqrt x\<rfloor> = k"
proof (rule floor_unique)
  have "1 \<le> sqrt x" using assms(5) by simp
  then have "t * 1 \<le> t * sqrt x" using assms(1) by simp
  then show "real_of_int k \<le> t * sqrt x" using assms(2) by simp
next
  have lt: "sqrt x < b" using assms(3,4) by (rule real_less_lsqrt)
  have "t * sqrt x < t * b" using lt assms(1) by simp
  then show "t * sqrt x < real_of_int k + 1" using assms(6) by simp
qed

lemma scaled_125_149: "\<lfloor>12.5 * sqrt (1.55 / 1.49)\<rfloor> = (12::int)"
  by (rule floor_scaled_between [where b = "26 / 25"]) (simp_all add: power2_eq_square)

lemma scaled_12_14: "\<lfloor>12 * sqrt (1.55 / 1.4)\<rfloor> = (12::int)"
  by (rule floor_scaled_between [where b = "13 / 12"]) (simp_all add: power2_eq_square)

text \<open>
  Claim C1.  On a failed result with safety factor \<open>s\<close>, \<open>0 < s < 1.5\<close>, and current
  thickness \<open>t\<close>, the step computes the ratio \<open>1.55 / s\<close> and the new thickness
  \<open>t * sqrt ratio\<close> rounded down, subject only to the two clamps: the cap gives 25
  when the scaled value exceeds 25, and the minimum increment gives \<open>t + 2\<close>
  rounded down when the thickness is negative or already above 25.
\<close>

theorem newThickness_formula:
  assumes "0 < s" "s < 1.5"
  shows "sfRatio s = 1.55 / s \<and>
    (0 \<le> t \<and> t * sqrt (1.55 / s) \<le> 25 \<longrightarrow> newThickness t s = \<lfloor>t * sqrt (1.55 / s)\<rfloor>) \<and>
    (0 \<le> t \<and> t \<le> 25 \<and> 25 < t * sqrt (1.55 / s) \<longrightarrow> newThickness t s = 25) \<and>
    (t < 0 \<or> 25 < t \<longrightarrow> newThickness t s = \<lfloor>t + 2\<rfloor>)"
proof -
  have r: "sfRatio s = 1.55 / s" by (simp add: sfRatio_def targetSF_def)
  have sc: "scaledThickness t s = t * sqrt (1.55 / s)"
    by (simp add: scaledThickness_def r)
  have b: "bumpedThickness t s =
     (if t < 0 \<or> 25 < t then t + 2
      else if 25 < scaledThickness t s then 25 else scaledThickness t s)"
    by (rule bumpedThickness_cases [OF assms])
  have c1: "newThickness t s = \<lfloor>t * sqrt (1.55 / s)\<rfloor>"
    if "0 \<le> t" "t * sqrt (1.55 / s) \<le> 25"
  proof -
    have "t \<le> scaledThickness t s" using scaledThickness_ge [OF assms that(1)] .
    then have "t \<le> 25" using that(2) sc by linarith
    then show ?thesis using that b by (simp add: newThickness_def sc)
  qed
  have c2: "newThickness t s = 25" if "0 \<le> t" "t \<le> 25" "25 < t * sqrt (1.55 / s)"
    using that b by (simp add: newThickness_def sc)
  have c3: "newThickness t s = \<lfloor>t + 2\<rfloor>" if "t < 0 \<or> 25 < t"
    using that b by (simp add: newThickness_def)
  show ?thesis using r c1 c2 c3 by blast
qed

text \<open>
  At safety factor 0.3875 the ratio is 4 and its root 2: thickness 5 becomes 10,
  thickness 20 is capped at 25, thickness 30 is bumped to 32.
\<close>

theorem newThickness_formula_witness:
  "(0::real) < 0.3875 \<and> (0.3875::real) < 1.5 \<and> sfRatio 0.3875 = 4 \<and>
   newThickness 5 0.3875 = 10 \<and> newThickness 20 0.3875 = 25 \<and> newThickness 30 0.3875 = 32"
  using newThickness_formula [of "0.3875" 5] newThickness_formula [of "0.3875" 20]
    newThickness_formula [of "0.3875" 30]
  by simp

text \<open>
  Claim C2.  For every failed result (safety factor \<open>s\<close> with \<open>0 < s < 1.5\<close>, as in
  claims C1 and C4: the safety factor is a yield strength of the material table,
  all of them positive, over a stress) and every current thickness within the
  parameter's maximum bound of 25, the new thickness is capped at 25: it is never
  greater than 25.
\<close>

theorem newThickness_cap:
  assumes "0 < s" "s < 1.5" "t \<le> 25"
  shows "newThickness t s \<le> 25"
proof -
  have "bumpedThickness t s \<le> 25"
    using assms(3) by (simp add: bumpedThickness_cases [OF assms(1,2)])
  then have "\<lfloor>bumpedThickness t s\<rfloor> \<le> \<lfloor>25::real\<rfloor>" by (rule floor_mono)
  then show ?thesis by (simp add: newThickness_def)
qed

theorem newThickness_cap_witness:
  "(0::real) < 0.3875 \<and> (0.3875::real) < 1.5 \<and> (20::real) \<le> 25 \<and> newThickness 20 0.3875 \<le> 25"
  using newThickness_cap [of "0.3875" 20] by simp

text \<open>
  On the integer grid the step never decreases the thickness: the value before
  rounding is never below the current thickness, and rounding a value that is at
  least a whole number leaves it at least that number.
\<close>

lemma newThickness_ge_whole_number:
  assumes "t \<in> \<int>"
  shows "t \<le> real_of_int (newThickness t s)"
proof -
  have "\<lfloor>t\<rfloor> \<le> \<lfloor>bumpedThickness t s\<rfloor>"
    using bumpedThickness_ge by (rule floor_mono)
  then have "\<lfloor>t\<rfloor> \<le> newThickness t s" by (simp add: newThickness_def)
  moreover have "real_of_int \<lfloor>t\<rfloor> = t" using assms by (auto simp add: Ints_def)
  ultimately show ?thesis by linarith
qed

text \<open>
  Claim C4 at the input thickness 12.5, safety factor 1.49.  The claim asks for a
  new thickness of at least 12.5.  The scaled value is about 12.75; it is neither
  above 25 nor below 12.5, so neither clamp applies, and rounding down gives 12,
  which is below the current thickness.
\<close>

theorem newThickness_decreases_off_grid:
  "newThickness 12.5 1.49 = 12 \<and> real_of_int (newThickness 12.5 1.49) < 12.5"
proof -
  have fl: "\<lfloor>scaledThickness 12.5 1.49\<rfloor> = 12"
    using scaled_125_149 by (simp add: scaledThickness_def sfRatio_def targetSF_def)
  then have "scaledThickness 12.5 1.49 < 13"
    by (simp add: floor_eq_iff)
  then have "bumpedThickness 12.5 1.49 = scaledThickness 12.5 1.49"
    using bumpedThickness_cases [of "1.49" "12.5"] by simp
  then have "newThickness 12.5 1.49 = 12" using fl by (simp add: newThickness_def)
  then show ?thesis by simp
qed

text \<open>
  Claim C5 at the input thickness 12, safety factor 1.4 (the example page).  The
  claim asks for a new thickness strictly greater than 12.  The scaled value is
  about 12.63; it is neither above 25 nor below 12, so neither clamp applies, and
  rounding down gives 12: the parameters sent to the server keep thickness 12.
\<close>

theorem newThickness_no_progress:
  "newThickness 12 1.4 = 12 \<and> \<not> 12 < newThickness 12 1.4 \<and>
   thickness (optimizedParams (parameters (the (wingsModel failedWingPage)))
     (the (simResult failedWingPage))) = 12"
proof -
  have fl: "\<lfloor>scaledThickness 12 1.4\<rfloor> = 12"
    using scaled_12_14 by (simp add: scaledThickness_def sfRatio_def targetSF_def)
  then have "scaledThickness 12 1.4 < 13"
    by (simp add: floor_eq_iff)
  then have "bumpedThickness 12 1.4 = scaledThickness 12 1.4"
    using bumpedThickness_cases [of "1.4" 12] by simp
  then have "newThickness 12 1.4 = 12" using fl by (simp add: newThickness_def)
  then show ?thesis by (simp add: optimizedParams_def failedWingPage_def)
qed

text \<open>
  Claim C10.  On a failed result (\<open>0 < s < 1.5\<close>, so the ratio exceeds 1) and for
  every current thickness \<open>t\<close> of a wing, \<open>0 < t \<le> 25\<close>, the minimum-increment branch
  is not taken: the scaled value \<open>t * sqrt ratio\<close> is strictly above \<open>t\<close>, the cap at
  25 never brings the value below \<open>t\<close>, so the test of line 167 is false and the
  capped value goes on to the rounding unchanged.
\<close>

theorem minimum_bump_unreachable:
  assumes "0 < s" "s < 1.5" "0 < t" "t \<le> 25"
  shows "1 < sfRatio s \<and>
         t < scaledThickness t s \<and>
         t \<le> cappedThickness t s \<and>
         \<not> cappedThickness t s < t \<and>
         bumpedThickness t s = cappedThickness t s"
proof -
  have "1 < sqrt (sfRatio s)" using assms(1,2) by (rule sqrt_sfRatio_gt_1)
  then have r: "1 < sfRatio s" by simp
  have g: "t < scaledThickness t s"
    using assms(1,2,3) by (rule scaledThickness_gt)
  then have c: "t \<le> cappedThickness t s"
    using assms(4) by (simp add: cappedThickness_def Let_def)
  then have "bumpedThickness t s = cappedThickness t s"
    by (simp add: bumpedThickness_def Let_def)
  with r g c show ?thesis by simp
qed

theorem minimum_bump_unreachable_witness:
  "(0::real) < 0.3875 \<and> (0.3875::real) < 1.5 \<and> (0::real) < 5 \<and> (5::real) \<le> 25 \<and>
   5 < scaledThickness 5 0.3875 \<and> \<not> cappedThickness 5 0.3875 < 5 \<and>
   bumpedThickness 5 0.3875 = cappedThickness 5 0.3875"
  using minimum_bump_unreachable [of "0.3875" 5] by simp

section \<open>The optimisation step: the stored simulation result\<close>

text \<open>
  The body of the \<open>try\<close> cannot reach line 206, \<open>simResult = null\<close>: the call of
  line 203 stands before it.
\<close>

lemma tryBlock_keeps_state:
  "tryBlock updateParameters newParams st = Inr st' \<Longrightarrow> st' = st"
  by (simp add: tryBlock_def callUndeclared_def split: sum.splits if_splits option.splits)

lemma tryCatchFinally_keeps_state:
  "fst (tryCatchFinally updateParameters newParams st) = st"
proof (cases "tryBlock updateParameters newParams st")
  case (Inl e)
  then show ?thesis by (simp add: tryCatchFinally_def assignToImport_def)
next
  case (Inr st')
  then have "st' = st" by (rule tryBlock_keeps_state)
  with Inr show ?thesis by (simp add: tryCatchFinally_def assignToImport_def)
qed

text \<open>
  On the example page the step ends at line 182 with the \<open>TypeError\<close>, whatever
  the server would answer.
\<close>

lemma optimizeDesign_failedWingPage:
  "optimizeDesign echoResponse failedWingPage = (failedWingPage, Some (TypeError ''isCompiling''))"
  by (simp add: optimizeDesign_def assignToImport_def failedWingPage_def Let_def)

text \<open>
  Claim C3.  When the optimisation step is applied after a \<open>FAIL\<close> result, the
  stored simulation result is preserved: after the step the page holds the same
  result, and indeed the same state, as before it, whatever the server answers,
  so the result stays on display and is never discarded or replaced.  The
  assignment of line 206 that would clear it is never reached: the step ends at
  line 182, and the body of the \<open>try\<close> taken by itself ends at line 203.
\<close>

theorem optimizeDesign_keeps_result:
  "simResult (fst (optimizeDesign updateParameters st)) = simResult st \<and>
   fst (optimizeDesign updateParameters st) = st \<and>
   simResult (fst (tryCatchFinally updateParameters newParams st)) = simResult st"
proof -
  have "fst (optimizeDesign updateParameters st) = st"
    by (simp add: optimizeDesign_def assignToImport_def Let_def split: option.splits)
  then show ?thesis by (simp add: tryCatchFinally_keeps_state)
qed

section \<open>Mission controls: the range of altitude and speed\<close>

lemma altitudeSlider_range:
  "500 \<le> sliderValue altitudeSlider k \<and> sliderValue altitudeSlider k \<le> 25000"
  by (simp add: sliderValue_def altitudeSlider_def min_def)

lemma speedSlider_range:
  "50 \<le> sliderValue speedSlider k \<and> sliderValue speedSlider k \<le> 1000"
  by (simp add: sliderValue_def speedSlider_def min_def)

lemma missionStep_range:
  assumes "0 \<le> altitude mp \<and> altitude mp \<le> 25000 \<and> 50 \<le> speed mp \<and> speed mp \<le> 1000"
  shows "0 \<le> altitude (missionStep mp e) \<and> altitude (missionStep mp e) \<le> 25000 \<and>
         50 \<le> speed (missionStep mp e) \<and> speed (missionStep mp e) \<le> 1000"
proof (cases e)
  case (AltitudeInput k)
  then show ?thesis using assms altitudeSlider_range [of k] by simp
next
  case (SpeedInput k)
  then show ?thesis using assms speedSlider_range [of k] by simp
next
  case ApplyContext
  then show ?thesis using assms by simp
qed

lemma foldl_missionStep_range:
  "0 \<le> altitude mp \<and> altitude mp \<le> 25000 \<and> 50 \<le> speed mp \<and> speed mp \<le> 1000 \<Longrightarrow>
   0 \<le> altitude (foldl missionStep mp evs) \<and> altitude (foldl missionStep mp evs) \<le> 25000 \<and>
   50 \<le> speed (foldl missionStep mp evs) \<and> speed (foldl missionStep mp evs) \<le> 1000"
proof (induction evs arbitrary: mp)
  case Nil
  then show ?case by simp
next
  case (Cons e evs)
  have "0 \<le> altitude (missionStep mp e) \<and> altitude (missionStep mp e) \<le> 25000 \<and>
         50 \<le> speed (missionStep mp e) \<and> speed (missionStep mp e) \<le> 1000"
    using Cons.prems by (rule missionStep_range)
  then show ?case using Cons.IH [of "missionStep mp e"] by simp
qed

text \<open>
  A slider, once moved, leaves its own value in the field whatever the profile
  was before: the altitude after any sequence of events is the first altitude or
  a slider value.
\<close>

lemma foldl_missionStep_altitude:
  "altitude (foldl missionStep mp evs) = altitude mp \<or>
   (500 \<le> altitude (foldl missionStep mp evs) \<and> altitude (foldl missionStep mp evs) \<le> 25000)"
proof (induction evs rule: rev_induct)
  case Nil
  then show ?case by simp
next
  case (snoc e evs)
  show ?case
  proof (cases e)
    case (AltitudeInput k)
    then show ?thesis using altitudeSlider_range [of k] by simp
  next
    case (SpeedInput k)
    then show ?thesis using snoc.IH by simp
  next
    case ApplyContext
    then show ?thesis using snoc.IH by simp
  qed
qed

lemma foldl_missionStep_speed:
  "speed (foldl missionStep mp evs) = speed mp \<or>
   (50 \<le> speed (foldl missionStep mp evs) \<and> speed (foldl missionStep mp evs) \<le> 1000)"
proof (induction evs rule: rev_induct)
  case Nil
  then show ?case by simp
next
  case (snoc e evs)
  show ?case
  proof (cases e)
    case (AltitudeInput k)
    then show ?thesis using snoc.IH by simp
  next
    case (SpeedInput k)
    then show ?thesis using speedSlider_range [of k] by simp
  next
    case ApplyContext
    then show ?thesis using snoc.IH by simp
  qed
qed

text \<open>
  Claim C8.  From a first profile within the documented ranges, every profile the
  mission controls reach has its altitude in \<open>[0, 25000]\<close> and its speed in
  \<open>[50, 1000]\<close>, and these are the values the simulation request carries (the
  atmosphere and the Mach number read the same two fields).  Whatever the first
  profile, a field the controls have changed holds a slider value: an altitude
  in \<open>[500, 25000]\<close>, a speed in \<open>[50, 1000]\<close>.
\<close>

theorem missionProfile_in_range:
  "(0 \<le> altitude init \<and> altitude init \<le> 25000 \<and> 50 \<le> speed init \<and> speed init \<le> 1000 \<longrightarrow>
      0 \<le> altitude (missionRun init evs) \<and> altitude (missionRun init evs) \<le> 25000 \<and>
      50 \<le> speed (missionRun init evs) \<and> speed (missionRun init evs) \<le> 1000) \<and>
   (altitude (missionRun init evs) \<noteq> altitude init \<longrightarrow>
      500 \<le> altitude (missionRun init evs) \<and> altitude (missionRun init evs) \<le> 25000) \<and>
   (speed (missionRun init evs) \<noteq> speed init \<longrightarrow>
      50 \<le> speed (missionRun init evs) \<and> speed (missionRun init evs) \<le> 1000) \<and>
   req_altitude (simulationRequest matId wp (missionRun init evs)) = altitude (missionRun init evs) \<and>
   req_speed (simulationRequest matId wp (missionRun init evs)) = speed (missionRun init evs)"
  using foldl_missionStep_range [of init evs] foldl_missionStep_altitude [of init evs]
    foldl_missionStep_speed [of init evs]
  by (auto simp add: missionRun_def simulationRequest_def Let_def)

theorem missionProfile_in_range_witness:
  "altitude (missionRun startProfile [AltitudeInput 60, SpeedInput 3, ApplyContext]) = 25000 \<and>
   speed (missionRun startProfile [AltitudeInput 60, SpeedInput 3, ApplyContext]) = 80 \<and>
   altitude (missionRun startProfile [AltitudeInput 60, SpeedInput 3, ApplyContext])
     \<noteq> altitude startProfile \<and>
   speed (missionRun startProfile [AltitudeInput 60, SpeedInput 3, ApplyContext])
     \<noteq> speed startProfile \<and>
   0 \<le> altitude startProfile \<and> altitude startProfile \<le> 25000 \<and>
   50 \<le> speed startProfile \<and> speed startProfile \<le> 1000"
  using missionProfile_in_range [of startProfile "[AltitudeInput 60, SpeedInput 3, ApplyContext]"]
  by (simp add: missionRun_def sliderValue_def altitudeSlider_def speedSlider_def
      startProfile_def)

end
